theory Spec2Isabelle
  imports Complex_Main "HOL-Library.AList" "HOL-Library.Multiset"
    "HOL-Library.Product_Lexorder" "HOL-Library.List_Lexorder"
begin

section \<open>The NSGA-II sampler of \<^verbatim>\<open>optuna/samplers/nsgaii/_sampler.py\<close>\<close>

text \<open>
  The sampler object is a record of the attributes \<^verbatim>\<open>__init__\<close> stores. Its three
  strategies are callables, so they are function-valued fields. Everything a call can
  mutate (the study's storage, the caches, the random generators) is one explicit state
  \<open>'w\<close> that each method takes and returns. Python floats are read as reals: the
  code below only compares them.
\<close>

subsection \<open>Data\<close>

text \<open>\<^verbatim>\<open>optuna.trial.TrialState\<close>: the enumeration the source names members of.\<close>

datatype TrialState = RUNNING | COMPLETE | PRUNED | FAIL | WAITING

text \<open>The exceptions the source file raises itself.\<close>

datatype error = ValueError | AssertionError

text \<open>
  A crossover object, as far as the constructor looks at it: its \<^verbatim>\<open>n_parents\<close>. The
  \<^verbatim>\<open>crossover\<close> argument is \<^verbatim>\<open>None\<close>, a \<^verbatim>\<open>BaseCrossover\<close>, or an object of
  another class (which \<^verbatim>\<open>isinstance\<close> rejects).
\<close>

datatype BaseCrossover = BaseCrossover (n_parents: int)

datatype crossover_arg = CrossoverNone | Crossover BaseCrossover | NotACrossover

type_synonym ('w, 't) elite_strategy = "'w \<Rightarrow> 't list \<Rightarrow> 't list"

type_synonym ('w, 't, 'd, 'v) child_strategy =
  "'w \<Rightarrow> (string \<times> 'd) list \<Rightarrow> 't list \<Rightarrow> (string \<times> 'v) list \<times> 'w"

type_synonym ('w, 't) after_strategy =
  "'w \<Rightarrow> 't \<Rightarrow> TrialState \<Rightarrow> real list option \<Rightarrow> 'w"

record ('w, 't, 'd, 'v) NSGAIISampler =
  population_size :: int
  constraints_func :: "('t \<Rightarrow> real list) option"
  elite_population_selection_strategy :: "('w, 't) elite_strategy"
  child_generation_strategy :: "('w, 't, 'd, 'v) child_strategy"
  after_trial_strategy :: "('w, 't) after_strategy"

text \<open>
  What the methods call and this file does not hold: the methods inherited from
  \<^verbatim>\<open>BaseGASampler\<close>, \<^verbatim>\<open>IntersectionSearchSpace.calculate\<close>,
  \<^verbatim>\<open>BaseDistribution.single\<close>, the methods of the \<^verbatim>\<open>RandomSampler\<close>, and
  \<^verbatim>\<open>seed\<close> of the generator that \<^verbatim>\<open>self._rng.rng\<close> is (\<open>rng_seed\<close>, with the seed
  passed or \<open>None\<close>). They are parameters: every theorem about a method holds for all
  of them.
\<close>

record ('w, 't, 'd) collaborators =
  get_trial_generation :: "'w \<Rightarrow> 't \<Rightarrow> int \<times> 'w"
  get_population :: "'w \<Rightarrow> int \<Rightarrow> 't list"
  get_parent_population :: "'w \<Rightarrow> int \<Rightarrow> 't list \<times> 'w"
  calculate :: "'w \<Rightarrow> (string \<times> 'd) list \<times> 'w"
  single :: "'d \<Rightarrow> bool"
  random_sampler_after_trial :: "'w \<Rightarrow> 't \<Rightarrow> TrialState \<Rightarrow> real list option \<Rightarrow> 'w"
  random_sampler_reseed_rng :: "'w \<Rightarrow> 'w"
  rng_seed :: "int option \<Rightarrow> 'w \<Rightarrow> 'w"

text \<open>The keyword arguments of \<^verbatim>\<open>__init__\<close>.\<close>

record ('w, 't, 'd, 'v) init_args =
  arg_population_size :: int
  arg_mutation_prob :: "real option"
  arg_crossover :: crossover_arg
  arg_crossover_prob :: real
  arg_swapping_prob :: real
  arg_seed :: "int option"
  arg_constraints_func :: "('t \<Rightarrow> real list) option"
  arg_elite_population_selection_strategy :: "('w, 't) elite_strategy option"
  arg_child_generation_strategy :: "('w, 't, 'd, 'v) child_strategy option"
  arg_after_trial_strategy :: "('w, 't) after_strategy option"

text \<open>
  The classes \<^verbatim>\<open>__init__\<close> instantiates and this file does not hold. A constructor
  may raise. \<^verbatim>\<open>RandomSampler(seed)\<close> and \<^verbatim>\<open>LazyRandomState(seed)\<close> create the two
  generators in the state; the child generation strategy keeps a reference to the second
  one, so it lives in the state and not in the strategy.
\<close>

record ('w, 't, 'd, 'v) classes =
  UniformCrossover :: "real \<Rightarrow> error + BaseCrossover"
  RandomSampler :: "int option \<Rightarrow> 'w \<Rightarrow> 'w"
  LazyRandomState :: "int option \<Rightarrow> 'w \<Rightarrow> 'w"
  NSGAIIElitePopulationSelectionStrategy ::
    "int \<Rightarrow> ('t \<Rightarrow> real list) option \<Rightarrow> error + ('w, 't) elite_strategy"
  NSGAIIChildGenerationStrategy ::
    "real \<Rightarrow> real option \<Rightarrow> real \<Rightarrow> BaseCrossover \<Rightarrow> ('t \<Rightarrow> real list) option \<Rightarrow>
       error + ('w, 't, 'd, 'v) child_strategy"
  NSGAIIAfterTrialStrategy :: "('t \<Rightarrow> real list) option \<Rightarrow> error + ('w, 't) after_strategy"

subsection \<open>Methods\<close>

text \<open>
  \<^verbatim>\<open>x or C(...)\<close> builds the default only when \<^verbatim>\<open>x\<close> is \<^verbatim>\<open>None\<close> (a strategy given
  is a callable, which is true).
\<close>

definition or_default :: "'a option \<Rightarrow> error + 'a \<Rightarrow> error + 'a" where
  "or_default given built = (case given of Some x \<Rightarrow> Inr x | None \<Rightarrow> built)"

text \<open>
  \<^verbatim>\<open>__init__\<close>. The warnings have no effect on the result. An exception leaves no
  object, so the state comes back as it was.
\<close>

definition init ::
  "('w, 't, 'd, 'v) classes \<Rightarrow> ('w, 't, 'd, 'v) init_args \<Rightarrow> 'w \<Rightarrow>
     (error + ('w, 't, 'd, 'v) NSGAIISampler) \<times> 'w" where
  "init cls args w =
     (if arg_population_size args < 2 then (Inl ValueError, w)
      else
        case (case arg_crossover args of
                CrossoverNone \<Rightarrow>
                  (case UniformCrossover cls (arg_swapping_prob args) of
                     Inl e \<Rightarrow> Inl e | Inr c \<Rightarrow> Inr (Crossover c))
              | given \<Rightarrow> Inr given) of
          Inl e \<Rightarrow> (Inl e, w)
        | Inr CrossoverNone \<Rightarrow> (Inl ValueError, w)
        | Inr NotACrossover \<Rightarrow> (Inl ValueError, w)
        | Inr (Crossover crossover) \<Rightarrow>
            if arg_population_size args < n_parents crossover then (Inl ValueError, w)
            else
              let w' = LazyRandomState cls (arg_seed args) (RandomSampler cls (arg_seed args) w)
              in
              case or_default (arg_elite_population_selection_strategy args)
                     (NSGAIIElitePopulationSelectionStrategy cls
                        (arg_population_size args) (arg_constraints_func args)) of
                Inl e \<Rightarrow> (Inl e, w)
              | Inr elite \<Rightarrow>
              case or_default (arg_child_generation_strategy args)
                     (NSGAIIChildGenerationStrategy cls
                        (arg_crossover_prob args) (arg_mutation_prob args)
                        (arg_swapping_prob args) crossover (arg_constraints_func args)) of
                Inl e \<Rightarrow> (Inl e, w)
              | Inr child \<Rightarrow>
              case or_default (arg_after_trial_strategy args)
                     (NSGAIIAfterTrialStrategy cls (arg_constraints_func args)) of
                Inl e \<Rightarrow> (Inl e, w)
              | Inr after \<Rightarrow>
                  (Inr \<lparr> population_size = arg_population_size args,
                         constraints_func = arg_constraints_func args,
                         elite_population_selection_strategy = elite,
                         child_generation_strategy = child,
                         after_trial_strategy = after \<rparr>,
                   w'))"



text \<open>
  \<^verbatim>\<open>infer_relative_search_space\<close>: the loop over the items of the intersection search
  space, in the dictionary's order; \<^verbatim>\<open>search_space[name] = distribution\<close> is the
  update of an association list (a new key goes last).
\<close>

definition infer_relative_search_space ::
  "('w, 't, 'd) collaborators \<Rightarrow> 'w \<Rightarrow> 't \<Rightarrow> (string \<times> 'd) list \<times> 'w" where
  "infer_relative_search_space ext study trial =
     (case calculate ext study of (items, study') \<Rightarrow>
        (fold (\<lambda>(name, distribution) search_space.
                 if single ext distribution then search_space
                 else AList.update name distribution search_space)
              items [],
         study'))"

text \<open>
  \<^verbatim>\<open>select_parent\<close>: Python evaluates the two operands of \<^verbatim>\<open>+\<close> from left to right,
  then calls the strategy on the study as the second call left it.
\<close>

definition select_parent ::
  "('w, 't, 'd, 'v) NSGAIISampler \<Rightarrow> ('w, 't, 'd) collaborators \<Rightarrow> 'w \<Rightarrow> int \<Rightarrow> 't list \<times> 'w" where
  "select_parent self ext study generation =
     (let population = get_population ext study (generation - 1) in
      case get_parent_population ext study (generation - 1) of (parents, study') \<Rightarrow>
        (elite_population_selection_strategy self study' (population @ parents), study'))"

text \<open>\<^verbatim>\<open>sample_relative\<close>: \<^verbatim>\<open>{}\<close> is the empty association list.\<close>

definition sample_relative ::
  "('w, 't, 'd, 'v) NSGAIISampler \<Rightarrow> ('w, 't, 'd) collaborators \<Rightarrow> 'w \<Rightarrow> 't \<Rightarrow>
     (string \<times> 'd) list \<Rightarrow> (string \<times> 'v) list \<times> 'w" where
  "sample_relative self ext study trial search_space =
     (case get_trial_generation ext study trial of (generation, study1) \<Rightarrow>
      case get_parent_population ext study1 generation of (parent_population, study2) \<Rightarrow>
        if length parent_population = 0 then ([], study2)
        else child_generation_strategy self study2 search_space parent_population)"

text \<open>
  \<^verbatim>\<open>after_trial\<close>: a failed \<^verbatim>\<open>assert\<close> raises before anything else runs, so the state
  comes back as it was; otherwise the strategy runs, then the random sampler's hook.
\<close>

definition after_trial ::
  "('w, 't, 'd, 'v) NSGAIISampler \<Rightarrow> ('w, 't, 'd) collaborators \<Rightarrow> 'w \<Rightarrow> 't \<Rightarrow> TrialState \<Rightarrow>
     real list option \<Rightarrow> (error + unit) \<times> 'w" where
  "after_trial self ext study trial state vals =
     (if state \<notin> set [COMPLETE, FAIL, PRUNED] then (Inl AssertionError, study)
      else let study1 = after_trial_strategy self study trial state vals;
               study2 = random_sampler_after_trial ext study1 trial state vals
           in (Inr (), study2))"

section \<open>The strategies behind the sampler\<close>

text \<open>
  The comparator and the three default strategies live in modules this file only
  imports. They are modelled from the specification (sections 3 and 4), under the
  names it gives them.
\<close>

subsection \<open>Candidates\<close>

text \<open>Modelled from the spec: an objective's direction (section 3).\<close>

datatype direction = Minimize | Maximize

text \<open>
  Modelled from the spec: the Candidate of section 3 (the \<^verbatim>\<open>FrozenTrial\<close> class is not
  in this file). \<open>number\<close> is the unique sequential identifier.
\<close>

record 'd candidate =
  number :: nat
  params :: "(string \<times> real) list"
  distributions :: "(string \<times> 'd) list"
  objectives :: "real list"
  constraint_values :: "real list option"
  completion :: TrialState
  generation_index :: int

subsection \<open>Domination comparator\<close>

text \<open>
  Modelled from the spec: section 4.1 (the comparator's module is not in this file).
  A candidate is feasible iff all its constraint values are at most 0, or it has none.
\<close>

definition feasibility :: "'d candidate \<Rightarrow> bool" where
  "feasibility c =
     (case constraint_values c of None \<Rightarrow> True | Some cs \<Rightarrow> list_all (\<lambda>v. v \<le> 0) cs)"

text \<open>
  Modelled from the spec: section 4.1, the total violation: the sum of the constraint
  values above 0 (0 for a feasible candidate).
\<close>

definition total_violation :: "'d candidate \<Rightarrow> real" where
  "total_violation c =
     (case constraint_values c of None \<Rightarrow> 0 | Some cs \<Rightarrow> sum_list (filter (\<lambda>v. 0 < v) cs))"

text \<open>
  Modelled from the spec: section 4.1, each objective's direction normalized to
  "smaller is better".
\<close>

definition normalized :: "direction list \<Rightarrow> real list \<Rightarrow> real list" where
  "normalized dirs vs = map (\<lambda>(d, v). if d = Maximize then - v else v) (zip dirs vs)"

text \<open>
  Modelled from the spec: section 4.1, standard Pareto dominance: no worse on every
  objective and strictly better on at least one.
\<close>

definition pareto_dominates :: "real list \<Rightarrow> real list \<Rightarrow> bool" where
  "pareto_dominates xs ys =
     (list_all (\<lambda>(x, y). x \<le> y) (zip xs ys) \<and> list_ex (\<lambda>(x, y). x < y) (zip xs ys))"

text \<open>
  Modelled from the spec: \<open>dominates(a, b)\<close> of section 4.1. \<open>constrained\<close> says
  whether constraints are enabled; the constraint-disabled mode skips the feasibility
  branch.
\<close>

definition dominates :: "bool \<Rightarrow> direction list \<Rightarrow> 'd candidate \<Rightarrow> 'd candidate \<Rightarrow> bool" where
  "dominates constrained dirs a b =
     (if constrained \<and> feasibility a \<noteq> feasibility b then feasibility a
      else if constrained \<and> \<not> feasibility a then total_violation a < total_violation b
      else pareto_dominates (normalized dirs (objectives a)) (normalized dirs (objectives b)))"

subsection \<open>Non-dominated sorting terminates\<close>

text \<open>
  Domination implies a strict decrease of a lexicographic key (infeasible after
  feasible, then the total violation, then the normalized objectives), so every
  non-empty pool has a member that no member dominates.
\<close>

lemma pareto_dominates_less: "pareto_dominates xs ys \<Longrightarrow> xs < ys"
proof (induction xs arbitrary: ys)
  case Nil
  then show ?case by (simp add: pareto_dominates_def)
next
  case (Cons x xs)
  then show ?case
    by (cases ys) (auto simp: pareto_dominates_def)
qed

definition order_key :: "bool \<Rightarrow> direction list \<Rightarrow> 'd candidate \<Rightarrow> bool \<times> real \<times> real list" where
  "order_key constrained dirs c =
     (constrained \<and> \<not> feasibility c,
      if constrained \<and> \<not> feasibility c then total_violation c else 0,
      normalized dirs (objectives c))"

lemma dominates_order_key:
  "dominates constrained dirs a b \<Longrightarrow> order_key constrained dirs a < order_key constrained dirs b"
  by (auto simp: dominates_def order_key_def dest: pareto_dominates_less split: if_splits)

text \<open>
  Modelled from the spec: section 4.2, step 1: a candidate is outside the front when some
  member of the pool dominates it.
\<close>

definition dominated_in :: "bool \<Rightarrow> direction list \<Rightarrow> 'd candidate list \<Rightarrow> 'd candidate \<Rightarrow> bool" where
  "dominated_in constrained dirs pool c = list_ex (\<lambda>other. dominates constrained dirs other c) pool"

lemma exists_non_dominated:
  assumes "pool \<noteq> []"
  shows "\<exists>m \<in> set pool. \<not> dominated_in constrained dirs pool m"
proof -
  let ?keys = "order_key constrained dirs ` set pool"
  have "finite ?keys" "?keys \<noteq> {}" using assms by auto
  then have "Min ?keys \<in> ?keys" by (rule Min_in)
  then obtain m where m: "m \<in> set pool" "order_key constrained dirs m = Min ?keys" by auto
  have "\<not> dominates constrained dirs other m" if "other \<in> set pool" for other
  proof
    assume "dominates constrained dirs other m"
    then have "order_key constrained dirs other < Min ?keys"
      using dominates_order_key m(2) by metis
    moreover have "Min ?keys \<le> order_key constrained dirs other"
      using that by (intro Min_le) auto
    ultimately show False by simp
  qed
  with m(1) show ?thesis by (auto simp: dominated_in_def list_ex_iff)
qed

subsection \<open>Elite population selector\<close>

text \<open>
  Modelled from the spec: section 4.2, step 1, the fronts by iterative non-dominated
  sorting (the selection strategy's module is not in this file): the first front is
  the members no member dominates; the next fronts are those of the rest.
\<close>

function fronts :: "bool \<Rightarrow> direction list \<Rightarrow> 'd candidate list \<Rightarrow> 'd candidate list list" where
  "fronts constrained dirs pool =
     (if pool = [] then []
      else filter (\<lambda>c. \<not> dominated_in constrained dirs pool c) pool
           # fronts constrained dirs (filter (dominated_in constrained dirs pool) pool))"
  by pat_completeness auto
termination
proof (relation "measure (\<lambda>(constrained, dirs, pool). length pool)")
  show "wf (measure (\<lambda>(constrained, dirs, pool). length pool))" by simp
next
  fix constrained dirs and pool :: "'d candidate list"
  assume "pool \<noteq> []"
  then obtain m where "m \<in> set pool" "\<not> dominated_in constrained dirs pool m"
    using exists_non_dominated by blast
  then have "length (filter (dominated_in constrained dirs pool) pool) < length pool"
    by (intro length_filter_less) auto
  then show "((constrained, dirs, filter (dominated_in constrained dirs pool) pool),
              (constrained, dirs, pool)) \<in> measure (\<lambda>(constrained, dirs, pool). length pool)"
    by simp
qed

declare fronts.simps [simp del]

text \<open>
  Modelled from the spec: section 3, the crowding distance: a real number, or
  unbounded for a boundary candidate. Unbounded plus anything is unbounded.
\<close>

datatype distance = Finite real | Unbounded

fun plus_distance :: "distance \<Rightarrow> distance \<Rightarrow> distance" where
  "plus_distance (Finite x) (Finite y) = Finite (x + y)"
| "plus_distance a b = Unbounded"

text \<open>
  Modelled from the spec: the value of a candidate on objective \<open>j\<close>. The spec requires
  candidates to carry their objective values; a missing one reads as 0.
\<close>

definition objective :: "nat \<Rightarrow> 'd candidate \<Rightarrow> real" where
  "objective j c = (if j < length (objectives c) then objectives c ! j else 0)"

text \<open>
  Modelled from the spec: section 4.2, step 3, for one objective and a front sorted by
  it: an interior member gets the gap between its two neighbours, normalized by the
  front's width (no contribution when the width is 0).
\<close>

fun neighbour_gaps :: "nat \<Rightarrow> real \<Rightarrow> 'd candidate list \<Rightarrow> (nat \<times> distance) list" where
  "neighbour_gaps j width (a # b # c # rest) =
     (number b, Finite (if width = 0 then 0 else (objective j c - objective j a) / width))
       # neighbour_gaps j width (b # c # rest)"
| "neighbour_gaps j width rest = []"

text \<open>
  Modelled from the spec: section 4.2, step 3, the contributions of one objective, by
  candidate identifier: the two boundary members of the sorted front get an unbounded
  distance.
\<close>

definition dimension_distances :: "nat \<Rightarrow> 'd candidate list \<Rightarrow> (nat \<times> distance) list" where
  "dimension_distances j front =
     (case sort_key (objective j) front of
        [] \<Rightarrow> []
      | [a] \<Rightarrow> [(number a, Unbounded)]
      | a # rest \<Rightarrow>
          (number a, Unbounded)
            # neighbour_gaps j (objective j (last rest) - objective j a) (a # rest)
            @ [(number (last rest), Unbounded)])"

text \<open>
  Modelled from the spec: section 4.2, step 3, the crowding distance of a member within
  its front: the sum of its contributions across the objectives.
\<close>

definition crowding_distance :: "nat \<Rightarrow> 'd candidate list \<Rightarrow> 'd candidate \<Rightarrow> distance" where
  "crowding_distance n_objectives front c =
     fold (\<lambda>j total.
             plus_distance total
               (case map_of (dimension_distances j front) (number c) of
                  Some d \<Rightarrow> d | None \<Rightarrow> Finite 0))
          [0..<n_objectives] (Finite 0)"

text \<open>
  Modelled from the spec: section 4.2, step 4, the order of truncation: descending
  crowding distance (unbounded first), ties broken by candidate identifier. The key is
  compared lexicographically.
\<close>

definition truncation_key :: "nat \<Rightarrow> 'd candidate list \<Rightarrow> 'd candidate \<Rightarrow> (nat \<times> real) \<times> nat" where
  "truncation_key n_objectives front c =
     (case crowding_distance n_objectives front c of
        Unbounded \<Rightarrow> (0, 0) | Finite x \<Rightarrow> (1, - x),
      number c)"

text \<open>
  Modelled from the spec: section 4.2, steps 2 to 4: fronts are consumed in rank order;
  a whole front is added while the result stays at or under \<open>target_size\<close>; the
  first front that would overflow fills the remaining slots in truncation order.
\<close>

fun fill :: "nat \<Rightarrow> nat \<Rightarrow> 'd candidate list list \<Rightarrow> 'd candidate list \<Rightarrow> 'd candidate list" where
  "fill n_objectives target_size [] result = result"
| "fill n_objectives target_size (front # rest) result =
     (if length result + length front \<le> target_size
      then fill n_objectives target_size rest (result @ front)
      else result @ take (target_size - length result)
                      (sort_key (truncation_key n_objectives front) front))"

text \<open>
  Modelled from the spec: \<open>select(pool, target_size)\<close> of section 4.2. A size is a
  natural number.
\<close>

definition select :: "bool \<Rightarrow> direction list \<Rightarrow> 'd candidate list \<Rightarrow> nat \<Rightarrow> 'd candidate list" where
  "select constrained dirs pool target_size =
     fill (length dirs) target_size (fronts constrained dirs pool) []"

subsection \<open>The study and the generators\<close>

text \<open>
  Modelled from the spec: the seeded generator of sections 4.4 and 5
  (\<^verbatim>\<open>LazyRandomState\<close> and the generator behind it are not in this file). A
  generator is the seed material it was last seeded with and the number of draws made
  since: its draws are a function of the two.
\<close>

datatype generator = Generator (seed_material: int) (position: nat)

text \<open>
  Modelled from the spec: what the default strategies read and write: the study's
  directions and trial records (section 6), the sampler's generator and the random
  sampler's own (section 4.4).
\<close>

record 'd world =
  directions :: "direction list"
  trials :: "'d candidate list"
  rng :: generator
  random_sampler_rng :: generator

subsection \<open>Child generation strategy\<close>

text \<open>
  Modelled from the spec: what section 4.4 delegates externally: the generator's
  algorithm (\<open>prng seed k\<close> is draw \<open>k\<close>, uniform in \<open>[0, 1)\<close>, of a generator seeded
  with \<open>seed\<close>), the crossover operator plugin of section 6, which distributions are
  categorical, and independent sampling. The constructors of the two generators, with
  the optional \<open>seed\<close> of section 6, are external as well: the spec does not say what
  a generator without a seed starts from.
\<close>

record 'd plugins =
  prng :: "int \<Rightarrow> nat \<Rightarrow> real"
  crossover_operator ::
    "'d candidate list \<Rightarrow> (string \<times> 'd) list \<Rightarrow> 'd world \<Rightarrow> real \<Rightarrow> (string \<times> real) list \<times> 'd world"
  categorical :: "'d \<Rightarrow> bool"
  sample_independent :: "'d world \<Rightarrow> string \<Rightarrow> 'd \<Rightarrow> real \<times> 'd world"
  make_random_sampler :: "int option \<Rightarrow> 'd world \<Rightarrow> 'd world"
  make_lazy_random_state :: "int option \<Rightarrow> 'd world \<Rightarrow> 'd world"

text \<open>Modelled from the spec: one draw from the sampler's generator (section 4.4).\<close>

definition draw :: "'d plugins \<Rightarrow> 'd world \<Rightarrow> real \<times> 'd world" where
  "draw plug w =
     (case rng w of Generator s k \<Rightarrow> (prng plug s k, w\<lparr>rng := Generator s (Suc k)\<rparr>))"

text \<open>
  Modelled from the spec: the configuration of the child generation strategy
  (section 6).
\<close>

record child_config =
  crossover_prob :: real
  mutation_prob :: "real option"
  swapping_prob :: real
  crossover :: BaseCrossover

text \<open>
  Modelled from the spec: a uniform choice among \<open>n\<close> positions from one draw
  (section 4.4).
\<close>

definition choose_index :: "real \<Rightarrow> nat \<Rightarrow> nat" where
  "choose_index u n = min (nat \<lfloor>u * real n\<rfloor>) (n - 1)"

text \<open>
  Modelled from the spec: section 4.4, \<open>k\<close> distinct parents chosen uniformly at
  random without replacement (all of them when there are fewer).
\<close>

fun choose_parents ::
  "'d plugins \<Rightarrow> nat \<Rightarrow> 'd candidate list \<Rightarrow> 'd world \<Rightarrow> 'd candidate list \<times> 'd world" where
  "choose_parents plug 0 pool w = ([], w)"
| "choose_parents plug (Suc k) pool w =
     (if pool = [] then ([], w)
      else case draw plug w of (u, w1) \<Rightarrow>
        let i = choose_index u (length pool) in
        case choose_parents plug k (take i pool @ drop (Suc i) pool) w1 of
          (chosen, w2) \<Rightarrow> (pool ! i # chosen, w2))"

text \<open>
  Modelled from the spec: section 4.4, the names of the search space that every chosen
  parent has a value for; only they take part in crossover or copy.
\<close>

definition shared :: "'d candidate list \<Rightarrow> (string \<times> 'd) list \<Rightarrow> (string \<times> 'd) list" where
  "shared chosen search_space =
     filter (\<lambda>(name, d). list_all (\<lambda>p. map_of (params p) name \<noteq> None) chosen) search_space"

text \<open>
  Modelled from the spec: section 4.4, the uniform swap-based crossover of categorical
  parameters: each name takes the second parent's value with probability
  \<open>swapping_prob\<close>, the first parent's otherwise.
\<close>

fun uniform_swap ::
  "'d plugins \<Rightarrow> real \<Rightarrow> 'd candidate list \<Rightarrow> (string \<times> 'd) list \<Rightarrow> 'd world \<Rightarrow>
     (string \<times> real) list \<times> 'd world" where
  "uniform_swap plug swap chosen [] w = ([], w)"
| "uniform_swap plug swap chosen ((name, d) # names) w =
     (case draw plug w of (u, w1) \<Rightarrow>
      case uniform_swap plug swap chosen names w1 of (child, w2) \<Rightarrow>
        (case map_of (params (if u < swap \<and> 1 < length chosen then chosen ! 1 else hd chosen))
                name of
           Some v \<Rightarrow> (name, v) # child
         | None \<Rightarrow> child,
         w2))"

text \<open>
  Modelled from the spec: section 4.4, the crossover branch: \<open>n_parents\<close> parents are
  chosen, the plugged-in operator makes the numeric parameters, the uniform swap the
  categorical ones.
\<close>

definition crossover_phase ::
  "child_config \<Rightarrow> 'd plugins \<Rightarrow> (string \<times> 'd) list \<Rightarrow> 'd candidate list \<Rightarrow> 'd world \<Rightarrow>
     (string \<times> real) list \<times> 'd world" where
  "crossover_phase cfg plug search_space parents w =
     (case choose_parents plug (nat (n_parents (crossover cfg))) parents w of (chosen, w1) \<Rightarrow>
      let names = shared chosen search_space in
      case crossover_operator plug chosen (filter (\<lambda>(name, d). \<not> categorical plug d) names)
             w1 (swapping_prob cfg) of (numeric, w2) \<Rightarrow>
      case uniform_swap plug (swapping_prob cfg) chosen
             (filter (\<lambda>(name, d). categorical plug d) names) w2 of (swapped, w3) \<Rightarrow>
        (numeric @ swapped, w3))"

text \<open>
  Modelled from the spec: section 4.4, the branch without crossover: one parent is
  picked uniformly at random and its values are copied for the shared names.
\<close>

definition copy_phase ::
  "'d plugins \<Rightarrow> (string \<times> 'd) list \<Rightarrow> 'd candidate list \<Rightarrow> 'd world \<Rightarrow>
     (string \<times> real) list \<times> 'd world" where
  "copy_phase plug search_space parents w =
     (case choose_parents plug 1 parents w of (chosen, w1) \<Rightarrow>
        (concat (map (\<lambda>(name, d).
            case map_of (params (hd chosen)) name of Some v \<Rightarrow> [(name, v)] | None \<Rightarrow> [])
          (shared chosen search_space)), w1))"

text \<open>
  Modelled from the spec: section 4.4, the probability of the mutation pass:
  \<open>mutation_prob\<close>, by default \<open>1/len(search_space)\<close> when unset.
\<close>

definition mutation_threshold :: "real option \<Rightarrow> (string \<times> 'd) list \<Rightarrow> real" where
  "mutation_threshold p search_space =
     (case p of None \<Rightarrow> 1 / real (length search_space) | Some q \<Rightarrow> q)"

text \<open>
  Modelled from the spec: section 4.4, the mutation pass: one draw for every name of
  the search space; with the mutation probability the crossover or copy result for the
  name is discarded and a fresh value is sampled independently; a name the chosen
  parents have no value for is always sampled independently.
\<close>

fun mutation_pass ::
  "'d plugins \<Rightarrow> real option \<Rightarrow> (string \<times> 'd) list \<Rightarrow> (string \<times> 'd) list \<Rightarrow>
     (string \<times> real) list \<Rightarrow> 'd world \<Rightarrow> (string \<times> real) list \<times> 'd world" where
  "mutation_pass plug p search_space [] child w = ([], w)"
| "mutation_pass plug p search_space ((name, d) # names) child w =
     (case draw plug w of (u, w1) \<Rightarrow>
      case (case map_of child name of
              Some v \<Rightarrow> if u < mutation_threshold p search_space
                        then sample_independent plug w1 name d else (v, w1)
            | None \<Rightarrow> sample_independent plug w1 name d) of (v, w2) \<Rightarrow>
      case mutation_pass plug p search_space names child w2 of (rest, w3) \<Rightarrow>
        ((name, v) # rest, w3))"

text \<open>
  Modelled from the spec: \<open>generate(parents, search_space)\<close> of section 4.4 (the child
  generation strategy's module is not in this file): crossover with probability
  \<open>crossover_prob\<close>, copy otherwise, then the mutation pass.
\<close>

definition generate ::
  "child_config \<Rightarrow> 'd plugins \<Rightarrow> 'd world \<Rightarrow> (string \<times> 'd) list \<Rightarrow> 'd candidate list \<Rightarrow>
     (string \<times> real) list \<times> 'd world" where
  "generate cfg plug w search_space parents =
     (case draw plug w of (u, w1) \<Rightarrow>
      case (if u < crossover_prob cfg then crossover_phase cfg plug search_space parents w1
            else copy_phase plug search_space parents w1) of (child, w2) \<Rightarrow>
        mutation_pass plug (mutation_prob cfg) search_space search_space child w2)"

subsection \<open>After-trial strategy\<close>

text \<open>
  Modelled from the spec: \<open>record(trial, state, objective_values)\<close> of section 4.5
  (the after-trial strategy's module is not in this file): only for a complete state,
  and if constraints are configured, the constraint function is evaluated on the trial
  and its result overwrites the constraint values of the trial's record.
\<close>

definition record_constraints ::
  "('d candidate \<Rightarrow> real list) option \<Rightarrow> 'd world \<Rightarrow> 'd candidate \<Rightarrow> TrialState \<Rightarrow>
     real list option \<Rightarrow> 'd world" where
  "record_constraints func w trial state vals =
     (if state = COMPLETE then
        (case func of
           None \<Rightarrow> w
         | Some f \<Rightarrow>
             w\<lparr>trials := map (\<lambda>c. if number c = number trial
                                  then c\<lparr>constraint_values := Some (f trial)\<rparr> else c)
                             (trials w)\<rparr>)
      else w)"

subsection \<open>The default classes\<close>

text \<open>
  Modelled from the spec: the constructor of the child generation strategy with the
  validation of section 6: \<open>mutation_prob\<close> in \<open>(0, 1]\<close> or unset, \<open>crossover_prob\<close>
  and \<open>swapping_prob\<close> in \<open>[0, 1]\<close>.
\<close>

definition new_child_generation_strategy ::
  "'d plugins \<Rightarrow> real \<Rightarrow> real option \<Rightarrow> real \<Rightarrow> BaseCrossover \<Rightarrow>
     ('d candidate \<Rightarrow> real list) option \<Rightarrow>
     error + ('d world, 'd candidate, 'd, real) child_strategy" where
  "new_child_generation_strategy plug cp mp sp c func =
     (if \<not> (case mp of None \<Rightarrow> True | Some p \<Rightarrow> 0 < p \<and> p \<le> 1) then Inl ValueError
      else if \<not> (0 \<le> cp \<and> cp \<le> 1) then Inl ValueError
      else if \<not> (0 \<le> sp \<and> sp \<le> 1) then Inl ValueError
      else Inr (generate \<lparr> crossover_prob = cp, mutation_prob = mp, swapping_prob = sp,
                           crossover = c \<rparr> plug))"

text \<open>
  Modelled from the spec: the classes \<^verbatim>\<open>__init__\<close> instantiates, as sections 4 and 6
  describe them. The default crossover is uniform, with 2 parents (the class docstring
  of the sampler); the two generators are built by the external constructors; the
  selector selects \<open>population_size\<close> candidates, constraint-aware
  when a constraints function is configured.
\<close>

definition spec_classes ::
  "'d plugins \<Rightarrow> ('d world, 'd candidate, 'd, real) classes" where
  "spec_classes plug =
     \<lparr> UniformCrossover = (\<lambda>swapping_prob. Inr (BaseCrossover 2)),
       RandomSampler = make_random_sampler plug,
       LazyRandomState = make_lazy_random_state plug,
       NSGAIIElitePopulationSelectionStrategy =
         (\<lambda>size func. Inr (\<lambda>w pool. select (func \<noteq> None) (directions w) pool (nat size))),
       NSGAIIChildGenerationStrategy = new_child_generation_strategy plug,
       NSGAIIAfterTrialStrategy = (\<lambda>func. Inr (record_constraints func)) \<rparr>"


section \<open>Example inputs\<close>

text \<open>
  A small concrete setting for evaluating the methods: the state is a counter of the
  writes made to the study, a trial is its number, a distribution is an integer range
  \<open>(low, high)\<close> that is single when \<open>low = high\<close>.
\<close>

definition example_ext :: "(nat, nat, int \<times> int) collaborators" where
  "example_ext =
     \<lparr> get_trial_generation = (\<lambda>study trial. (int (trial div 2), study + 1)),
       get_population = (\<lambda>study generation. if generation = 0 then [0, 1] else []),
       get_parent_population = (\<lambda>study generation. (if generation = 0 then [] else [1], study + 1)),
       calculate = (\<lambda>study. ([(''x'', (0, 1)), (''y'', (3, 3)), (''z'', (2, 5))], study)),
       single = (\<lambda>(low, high). low = high),
       random_sampler_after_trial = (\<lambda>study trial state vals. study + 1),
       random_sampler_reseed_rng = (\<lambda>study. study),
       rng_seed = (\<lambda>seed study. study) \<rparr>"

definition example_sampler :: "(nat, nat, int \<times> int, int) NSGAIISampler" where
  "example_sampler =
     \<lparr> population_size = 2,
       constraints_func = None,
       elite_population_selection_strategy = (\<lambda>study pool. take 2 pool),
       child_generation_strategy =
         (\<lambda>study search_space parents. (map (\<lambda>(name, d). (name, fst d)) search_space, study + 1)),
       after_trial_strategy = (\<lambda>study trial state vals. study + 10) \<rparr>"

text \<open>
  A concrete setting for the default strategies: two objectives to minimize, candidates
  with parameters \<open>x\<close> and \<open>y\<close>, and a generator whose draws alternate between 0.3
  and 0.7.
\<close>

definition example_plugins :: "unit plugins" where
  "example_plugins =
     \<lparr> prng = (\<lambda>s k. if even k then 3 / 10 else 7 / 10),
       crossover_operator = (\<lambda>chosen names w swap.
          (map (\<lambda>(name, d).
                  (name, case map_of (params (hd chosen)) name of Some v \<Rightarrow> v | None \<Rightarrow> 0))
             names, w)),
       categorical = (\<lambda>d. False),
       sample_independent = (\<lambda>w name d. (100, w)),
       make_random_sampler =
         (\<lambda>seed w. w\<lparr>random_sampler_rng := Generator (case seed of Some s \<Rightarrow> s | None \<Rightarrow> 0) 0\<rparr>),
       make_lazy_random_state =
         (\<lambda>seed w. w\<lparr>rng := Generator (case seed of Some s \<Rightarrow> s | None \<Rightarrow> 0) 0\<rparr>) \<rparr>"

definition example_candidate :: "nat \<Rightarrow> real list \<Rightarrow> real list option \<Rightarrow> unit candidate" where
  "example_candidate n vs cs =
     \<lparr> number = n, params = [(''x'', real n), (''y'', 2 * real n)], distributions = [],
       objectives = vs, constraint_values = cs, completion = COMPLETE, generation_index = 0 \<rparr>"

definition example_pool :: "unit candidate list" where
  "example_pool =
     [example_candidate 0 [1, 4] None, example_candidate 1 [2, 3] None,
      example_candidate 2 [3, 2] None, example_candidate 3 [4, 1] None]"

definition example_world :: "unit world" where
  "example_world =
     \<lparr> directions = [Minimize, Minimize],
       trials = [example_candidate 0 [5, 5] None, example_candidate 1 [1, 1] None],
       rng = Generator 42 0, random_sampler_rng = Generator 42 0 \<rparr>"




text \<open>The keyword arguments at their defaults, with a seed.\<close>

definition example_args :: "(unit world, unit candidate, unit, real) init_args" where
  "example_args =
     \<lparr> arg_population_size = 50, arg_mutation_prob = None, arg_crossover = CrossoverNone,
       arg_crossover_prob = 9 / 10, arg_swapping_prob = 1 / 2, arg_seed = Some 42,
       arg_constraints_func = None, arg_elite_population_selection_strategy = None,
       arg_child_generation_strategy = None, arg_after_trial_strategy = None \<rparr>"

definition example_func :: "unit candidate \<Rightarrow> real list" where
  "example_func trial = [real (number trial), - 1]"

section \<open>Theorems\<close>

lemma fold_update_filter:
  assumes "distinct (map fst items)" and "fst ` set acc \<inter> fst ` set items = {}"
  shows "fold (\<lambda>(name, distribution) search_space.
                 if p distribution then search_space
                 else AList.update name distribution search_space) items acc
         = acc @ filter (\<lambda>(name, distribution). \<not> p distribution) items"
  using assms
proof (induction items arbitrary: acc)
  case Nil
  then show ?case by simp
next
  case (Cons item items)
  obtain k d where item: "item = (k, d)" by (cases item)
  from Cons.prems item have fresh: "k \<notin> fst ` set acc" by auto
  have upd: "AList.update k d acc = acc @ [(k, d)]"
    using fresh by (induction acc) auto
  show ?case
  proof (cases "p d")
    case True
    with Cons item show ?thesis by auto
  next
    case False
    have "fst ` set (acc @ [(k, d)]) \<inter> fst ` set items = {}"
      using Cons.prems item by auto
    with Cons.IH [of "acc @ [(k, d)]"] Cons.prems item False upd
    show ?thesis by simp
  qed
qed

subsection \<open>The relative search space\<close>

text \<open>
  Claim C10. \<^verbatim>\<open>infer_relative_search_space\<close> returns exactly the intersection search
  space (a dictionary: its keys are distinct) with every single-valued distribution
  removed, in the same order; so no distribution of the relative search space is
  single-valued, and a parameter whose distribution is single-valued is not among its
  names.
\<close>

theorem infer_relative_search_space_drops_single:
  assumes "calculate ext study = (items, study')" and "distinct (map fst items)"
  shows "infer_relative_search_space ext study trial
           = (filter (\<lambda>(name, d). \<not> single ext d) items, study')
         \<and> (\<forall>(name, d) \<in> set (fst (infer_relative_search_space ext study trial)).
               \<not> single ext d)
         \<and> (\<forall>(name, d) \<in> set items. single ext d \<longrightarrow>
               name \<notin> fst ` set (fst (infer_relative_search_space ext study trial)))"
proof -
  have eq: "infer_relative_search_space ext study trial
              = (filter (\<lambda>(name, d). \<not> single ext d) items, study')"
    using assms fold_update_filter [of items "[]" "single ext"]
    by (simp add: infer_relative_search_space_def)
  have others: "name' \<noteq> name" if "(name, d) \<in> set items" "single ext d"
    "(name', d') \<in> set items" "\<not> single ext d'" for name d name' d'
  proof
    assume "name' = name"
    with that assms(2) have "d' = d"
      by (metis eq_key_imp_eq_value)
    with that show False by simp
  qed
  show ?thesis
    unfolding eq using others by fastforce
qed

theorem infer_relative_search_space_drops_single_witness:
  "infer_relative_search_space example_ext 0 (7::nat) = ([(''x'', (0, 1)), (''z'', (2, 5))], 0)
   \<and> ''y'' \<notin> fst ` set (fst (infer_relative_search_space example_ext 0 (7::nat)))"
  using infer_relative_search_space_drops_single
    [of example_ext 0 "[(''x'', (0, 1)), (''y'', (3, 3)), (''z'', (2, 5))]" 0 7]
  by (simp add: example_ext_def)

subsection \<open>Parent selection\<close>

text \<open>
  Claim C1. For every study and generation \<open>g\<close>, \<^verbatim>\<open>select_parent\<close> returns what the
  elite population selection strategy returns on the population of generation
  \<open>g - 1\<close> followed by the parent population of generation \<open>g - 1\<close>; the pool the
  strategy receives (read off with the identity strategy) is that concatenation, not the
  population alone.
\<close>

theorem select_parent_pool:
  "select_parent self ext study g
     = (elite_population_selection_strategy self
          (snd (get_parent_population ext study (g - 1)))
          (get_population ext study (g - 1) @ fst (get_parent_population ext study (g - 1))),
        snd (get_parent_population ext study (g - 1)))
   \<and> fst (select_parent (self\<lparr>elite_population_selection_strategy := \<lambda>study pool. pool\<rparr>)
            ext study g)
     = get_population ext study (g - 1) @ fst (get_parent_population ext study (g - 1))"
  by (simp add: select_parent_def Let_def split: prod.split)

theorem select_parent_pool_witness:
  "select_parent example_sampler
     (example_ext\<lparr>get_parent_population := \<lambda>study generation. ([5], study + 1)\<rparr>) 0 1
   = ([0, 1], 1)
   \<and> fst (select_parent
        (example_sampler\<lparr>elite_population_selection_strategy := \<lambda>study pool. pool\<rparr>)
        (example_ext\<lparr>get_parent_population := \<lambda>study generation. ([5], study + 1)\<rparr>) 0 1)
   = [0, 1, 5]"
  using select_parent_pool [of example_sampler
    "example_ext\<lparr>get_parent_population := \<lambda>study generation. ([5], study + 1)\<rparr>" 0 1]
  by (simp add: example_ext_def example_sampler_def)

subsection \<open>Relative sampling\<close>

text \<open>
  Claim C2. When the parent population fetched for the trial's generation is empty,
  \<^verbatim>\<open>sample_relative\<close> returns the empty mapping and the state the two fetches left,
  whatever the child generation strategy is (it is not invoked); otherwise it returns
  exactly the strategy's result on that parent population. The method has no raising
  branch.
\<close>

theorem sample_relative_parents:
  assumes "get_trial_generation ext study trial = (g, study1)"
    and "get_parent_population ext study1 g = (parents, study2)"
  shows "(parents = [] \<longrightarrow>
            (\<forall>strategy. sample_relative (self\<lparr>child_generation_strategy := strategy\<rparr>)
               ext study trial search_space = ([], study2)))
         \<and> (parents \<noteq> [] \<longrightarrow>
            sample_relative self ext study trial search_space
              = child_generation_strategy self study2 search_space parents)"
  using assms by (simp add: sample_relative_def)

theorem sample_relative_parents_witness:
  "sample_relative
     (example_sampler\<lparr>child_generation_strategy := \<lambda>study search_space parents. ([(''x'', 9)], 99)\<rparr>)
     example_ext 0 1 [(''x'', (0, 1))] = ([], 2)
   \<and> sample_relative example_sampler example_ext 0 2 [(''x'', (0, 1))] = ([(''x'', 0)], 3)"
  using sample_relative_parents [of example_ext 0 1 0 1 "[]" 2 example_sampler "[(''x'', (0, 1))]"]
    sample_relative_parents [of example_ext 0 2 1 1 "[1]" 2 example_sampler "[(''x'', (0, 1))]"]
  by (simp add: example_ext_def example_sampler_def)

subsection \<open>The hook after a trial\<close>

text \<open>
  Claim C9. \<^verbatim>\<open>after_trial\<close> asserts that the state is \<^verbatim>\<open>COMPLETE\<close>, \<^verbatim>\<open>FAIL\<close> or
  \<^verbatim>\<open>PRUNED\<close>. With any other state it raises \<^verbatim>\<open>AssertionError\<close> and the state of the
  study is as before, whatever the strategies are (none has run). With one of the three
  it does not raise: the strategy runs, then the random sampler's hook.
\<close>

theorem after_trial_assertion:
  "(state \<notin> {COMPLETE, FAIL, PRUNED} \<longrightarrow>
      after_trial self ext study trial state vals = (Inl AssertionError, study))
   \<and> (state \<in> {COMPLETE, FAIL, PRUNED} \<longrightarrow>
      after_trial self ext study trial state vals
        = (Inr (), random_sampler_after_trial ext
                     (after_trial_strategy self study trial state vals) trial state vals))"
  by (simp add: after_trial_def Let_def)

theorem after_trial_assertion_witness:
  "after_trial example_sampler example_ext 0 3 RUNNING None = (Inl AssertionError, 0)
   \<and> after_trial example_sampler example_ext 0 3 WAITING None = (Inl AssertionError, 0)
   \<and> after_trial example_sampler example_ext 0 3 PRUNED None = (Inr (), 11)"
  using after_trial_assertion [of RUNNING example_sampler example_ext 0 3 None]
    after_trial_assertion [of WAITING example_sampler example_ext 0 3 None]
    after_trial_assertion [of PRUNED example_sampler example_ext 0 3 None]
  by (simp add: example_ext_def example_sampler_def)

subsection \<open>Construction\<close>




text \<open>
  With the default child generation strategy, whose constructor validates as the spec
  says, the same \<open>mutation_prob\<close> is refused.
\<close>

lemma init_default_checks_probabilities:
  "fst (init (spec_classes example_plugins) (example_args\<lparr>arg_mutation_prob := Some 5\<rparr>)
     example_world) = Inl ValueError"
  by (simp add: init_def example_args_def spec_classes_def or_default_def
      new_child_generation_strategy_def)

subsection \<open>Reseeding\<close>




subsection \<open>The domination comparator\<close>

lemma pareto_dominates_all_le_trans:
  "length xs = length ys \<Longrightarrow> length ys = length zs \<Longrightarrow>
     list_all (\<lambda>(x, y). x \<le> y) (zip xs ys) \<Longrightarrow> list_all (\<lambda>(x, y). x \<le> y) (zip ys zs) \<Longrightarrow>
     list_all (\<lambda>(x, y). x \<le> (y::real)) (zip xs zs)"
  by (induction xs ys zs rule: list_induct3) auto

lemma pareto_dominates_ex_less_trans:
  "length xs = length ys \<Longrightarrow> length ys = length zs \<Longrightarrow>
     list_ex (\<lambda>(x, y). x < y) (zip xs ys) \<Longrightarrow> list_all (\<lambda>(x, y). x \<le> y) (zip ys zs) \<Longrightarrow>
     list_ex (\<lambda>(x, y). x < (y::real)) (zip xs zs)"
  by (induction xs ys zs rule: list_induct3) auto

lemma pareto_dominates_trans:
  "length xs = length ys \<Longrightarrow> length ys = length zs \<Longrightarrow>
     pareto_dominates xs ys \<Longrightarrow> pareto_dominates ys zs \<Longrightarrow> pareto_dominates xs zs"
  unfolding pareto_dominates_def
  using pareto_dominates_all_le_trans [of xs ys zs] pareto_dominates_ex_less_trans [of xs ys zs]
  by blast

lemma dominates_irrefl: "\<not> dominates constrained dirs a a"
  using dominates_order_key [of constrained dirs a a] by auto

lemma dominates_asym: "dominates constrained dirs a b \<Longrightarrow> \<not> dominates constrained dirs b a"
  using dominates_order_key [of constrained dirs a b] dominates_order_key [of constrained dirs b a]
  by auto

lemma length_normalized: "length (normalized dirs vs) = min (length dirs) (length vs)"
  by (simp add: normalized_def)

lemma dominates_trans:
  assumes "length (objectives a) = length (objectives b)"
    and "length (objectives b) = length (objectives c)"
    and "dominates constrained dirs a b" and "dominates constrained dirs b c"
  shows "dominates constrained dirs a c"
proof -
  have len: "length (normalized dirs (objectives a)) = length (normalized dirs (objectives b))"
    "length (normalized dirs (objectives b)) = length (normalized dirs (objectives c))"
    using assms(1,2) by (simp_all add: length_normalized)
  show ?thesis
    using assms(3,4) pareto_dominates_trans [OF len]
    by (auto simp: dominates_def split: if_splits)
qed

lemma dominates_examples:
  "dominates True [Minimize, Minimize] (example_candidate 0 [5, 5] (Some [0]))
     (example_candidate 1 [1, 1] (Some [1 / 10]))"
  "dominates False [Minimize, Maximize] (example_candidate 0 [1, 3] None)
     (example_candidate 1 [2, 2] None)"
  "dominates False [Minimize, Maximize] (example_candidate 1 [2, 2] None)
     (example_candidate 2 [2, 1] None)"
  by (simp_all add: dominates_def feasibility_def total_violation_def pareto_dominates_def
      normalized_def example_candidate_def)

text \<open>
  Claim C4. The constrained-domination comparator is a strict partial order: no
  candidate dominates itself, \<open>dominates(a, b)\<close> and \<open>dominates(b, a)\<close> never both hold
  (so of the two, exactly one holds or neither does), and domination is transitive
  among candidates that carry the same number of objective values.
\<close>

theorem dominates_strict_partial_order:
  "\<not> dominates constrained dirs a a
   \<and> \<not> (dominates constrained dirs a b \<and> dominates constrained dirs b a)
   \<and> (length (objectives a) = length (objectives b)
        \<and> length (objectives b) = length (objectives c)
        \<and> dominates constrained dirs a b \<and> dominates constrained dirs b c
        \<longrightarrow> dominates constrained dirs a c)"
  using dominates_irrefl [of constrained dirs a] dominates_asym [of constrained dirs a b]
    dominates_trans [of a b c constrained dirs]
  by blast

theorem dominates_strict_partial_order_witness:
  "\<not> dominates True [Minimize, Minimize] (example_candidate 1 [1, 1] (Some [1 / 10]))
       (example_candidate 0 [5, 5] (Some [0]))
   \<and> dominates False [Minimize, Maximize] (example_candidate 0 [1, 3] None)
       (example_candidate 2 [2, 1] None)"
  using dominates_strict_partial_order [of True "[Minimize, Minimize]"
      "example_candidate 0 [5, 5] (Some [0])" "example_candidate 1 [1, 1] (Some [1 / 10])"]
    dominates_strict_partial_order [of False "[Minimize, Maximize]"
      "example_candidate 0 [1, 3] None" "example_candidate 1 [2, 2] None"
      "example_candidate 2 [2, 1] None"]
    dominates_examples
  by (simp add: example_candidate_def)

subsection \<open>The elite population selector\<close>

lemma fronts_Nil: "fronts constrained dirs [] = []"
  by (subst fronts.simps) simp

lemma mset_concat_fronts: "mset (concat (fronts constrained dirs pool)) = mset pool"
proof (induction constrained dirs pool rule: fronts.induct)
  case (1 constrained dirs pool)
  show ?case
  proof (cases "pool = []")
    case True
    then show ?thesis by (simp add: fronts_Nil)
  next
    case False
    with 1 show ?thesis
      by (subst fronts.simps) (simp add: union_commute)
  qed
qed

lemma length_fill:
  "length result \<le> target_size \<Longrightarrow> length (fill n target_size fs result) \<le> target_size"
  by (induction fs arbitrary: result) auto

lemma fill_all:
  "length result + length (concat fs) \<le> target_size \<Longrightarrow>
     fill n target_size fs result = result @ concat fs"
  by (induction fs arbitrary: result) auto

text \<open>
  Claim C5. For every pool and every \<open>target_size\<close>, the elite population selector
  returns at most \<open>target_size\<close> candidates; when the pool has at most \<open>target_size\<close>
  members it returns the entire pool (each member once, front by front); and the empty
  pool gives the empty result.
\<close>

theorem select_size:
  "length (select constrained dirs pool target_size) \<le> target_size
   \<and> (length pool \<le> target_size \<longrightarrow>
        mset (select constrained dirs pool target_size) = mset pool)
   \<and> select constrained dirs [] target_size = []"
proof -
  have len: "length (concat (fronts constrained dirs pool)) = length pool"
    using mset_concat_fronts [of constrained dirs pool] by (metis size_mset)
  have all: "select constrained dirs pool target_size = concat (fronts constrained dirs pool)"
    if "length pool \<le> target_size"
    using that len fill_all [of "[]" "fronts constrained dirs pool" target_size "length dirs"]
    by (simp add: select_def)
  have bound: "length (select constrained dirs pool target_size) \<le> target_size"
    using length_fill [of "[]" target_size "length dirs" "fronts constrained dirs pool"]
    by (simp add: select_def)
  have empty: "select constrained dirs [] target_size = []"
    by (simp add: select_def fronts_Nil)
  from all bound empty show ?thesis
    by (simp add: mset_concat_fronts)
qed

theorem select_size_witness:
  "mset (select False [Minimize, Minimize] example_pool 4) = mset example_pool
   \<and> length (select False [Minimize, Minimize] example_pool 2) \<le> 2
   \<and> map number (select False [Minimize, Minimize] example_pool 4) = [0, 1, 2, 3]
   \<and> map number (select False [Minimize, Minimize] example_pool 2) = [0, 3]"
proof -
  have small: "length example_pool \<le> 4" by (simp add: example_pool_def)
  have four: "map number (select False [Minimize, Minimize] example_pool 4) = [0, 1, 2, 3]"
    unfolding example_pool_def example_candidate_def by code_simp
  have two: "map number (select False [Minimize, Minimize] example_pool 2) = [0, 3]"
    unfolding example_pool_def example_candidate_def by code_simp
  from small select_size [of False "[Minimize, Minimize]" example_pool 4]
  have all: "mset (select False [Minimize, Minimize] example_pool 4) = mset example_pool"
    by blast
  from select_size [of False "[Minimize, Minimize]" example_pool 2]
  have bound: "length (select False [Minimize, Minimize] example_pool 2) \<le> 2"
    by blast
  from all bound four two show ?thesis by blast
qed

subsection \<open>The mutation pass\<close>

lemma mutation_pass_threshold:
  "mutation_threshold p space = mutation_threshold q space \<Longrightarrow>
     mutation_pass plug p space names child w = mutation_pass plug q space names child w"
  by (induction names arbitrary: w) (auto split: prod.splits option.splits)

lemma mutation_pass_names:
  "map fst (fst (mutation_pass plug p space names child w)) = map fst names"
proof (induction names arbitrary: w)
  case Nil
  show ?case by simp
next
  case (Cons item names)
  obtain name d where item: "item = (name, d)" by (cases item)
  have "map fst (fst (mutation_pass plug p space names child w')) = map fst names" for w'
    by (rule Cons.IH)
  then have "mutation_pass plug p space names child w' = (rest, w'') \<Longrightarrow>
      map fst rest = map fst names" for w' rest w''
    by (metis fst_conv)
  then show ?case
    by (simp add: item split: prod.splits option.splits)
qed

text \<open>
  Claim C8. When \<open>mutation_prob\<close> is unset, child generation over a search space is
  child generation with \<open>mutation_prob\<close> set to 1 divided by the number of parameters
  of that search space; and the mutation pass takes one decision per parameter name of
  the search space: the offspring has a value for every name, in order.
\<close>

theorem mutation_prob_default:
  "generate (cfg\<lparr>mutation_prob := None\<rparr>) plug w space parents
     = generate (cfg\<lparr>mutation_prob := Some (1 / real (length space))\<rparr>) plug w space parents
   \<and> map fst (fst (generate cfg plug w space parents)) = map fst space"
proof -
  have "mutation_pass plug None space space child w'
          = mutation_pass plug (Some (1 / real (length space))) space space child w'" for child w'
    by (rule mutation_pass_threshold) (simp add: mutation_threshold_def)
  then show ?thesis
    by (simp add: generate_def crossover_phase_def mutation_pass_names split: prod.splits)
qed

theorem mutation_prob_default_witness:
  "fst (generate \<lparr> crossover_prob = 0, mutation_prob = Some (1 / 2), swapping_prob = 1 / 2,
                   crossover = BaseCrossover 2 \<rparr>
         example_plugins example_world [(''x'', ()), (''y'', ())] [example_candidate 3 [] None])
   = [(''x'', 100), (''y'', 6)]"
proof -
  have "fst (generate \<lparr> crossover_prob = 0, mutation_prob = None, swapping_prob = 1 / 2,
                   crossover = BaseCrossover 2 \<rparr>
         example_plugins example_world [(''x'', ()), (''y'', ())] [example_candidate 3 [] None])
   = [(''x'', 100), (''y'', 6)]"
    by (simp add: generate_def example_plugins_def example_world_def example_candidate_def
        draw_def copy_phase_def shared_def choose_index_def mutation_threshold_def Let_def)
  then show ?thesis
    using mutation_prob_default [of "\<lparr> crossover_prob = 0, mutation_prob = None,
        swapping_prob = 1 / 2, crossover = BaseCrossover 2 \<rparr>" example_plugins example_world
        "[(''x'', ()), (''y'', ())]" "[example_candidate 3 [] None]"]
    by simp
qed

subsection \<open>Recording constraints after a trial\<close>

lemma init_spec_after_trial_strategy:
  assumes "init (spec_classes plug) args w0 = (Inr self, w1)"
    and "arg_after_trial_strategy args = None"
  shows "after_trial_strategy self = record_constraints (arg_constraints_func args)"
  using assms
  by (auto simp: init_def or_default_def spec_classes_def Let_def
      split: if_splits sum.splits crossover_arg.splits option.splits)

text \<open>
  Claim C6. For a sampler constructed with the default after-trial strategy, whatever
  constraints function is configured: when \<^verbatim>\<open>after_trial\<close> is invoked with a failed or
  pruned state, the strategy leaves the study as it is (the constraints function is not
  evaluated and no constraint values are recorded onto the trial); the only effect of
  the call is the random sampler's hook.
\<close>

theorem after_trial_records_only_complete:
  assumes "init (spec_classes plug) args w0 = (Inr self, w1)"
    and "arg_after_trial_strategy args = None"
    and "state = FAIL \<or> state = PRUNED"
  shows "after_trial_strategy self w trial state vals = w
         \<and> after_trial self ext w trial state vals
             = (Inr (), random_sampler_after_trial ext w trial state vals)"
  using init_spec_after_trial_strategy [OF assms(1,2)] assms(3)
  by (auto simp: after_trial_def record_constraints_def Let_def)

theorem after_trial_records_only_complete_witness:
  "trials (after_trial_strategy
      (projr (fst (init (spec_classes example_plugins)
         (example_args\<lparr>arg_constraints_func := Some example_func\<rparr>) example_world)))
      example_world (example_candidate 1 [1, 1] None) FAIL None)
   = trials example_world
   \<and> trials (after_trial_strategy
      (projr (fst (init (spec_classes example_plugins)
         (example_args\<lparr>arg_constraints_func := Some example_func\<rparr>) example_world)))
      example_world (example_candidate 1 [1, 1] None) PRUNED None)
   = trials example_world"
proof -
  let ?r = "init (spec_classes example_plugins)
         (example_args\<lparr>arg_constraints_func := Some example_func\<rparr>) example_world"
  have "\<not> isl (fst ?r)"
    by (simp add: init_def example_args_def spec_classes_def or_default_def
        new_child_generation_strategy_def)
  then have built: "?r = (Inr (projr (fst ?r)), snd ?r)"
    by (metis prod.collapse sum.collapse(2))
  have none: "arg_after_trial_strategy (example_args\<lparr>arg_constraints_func := Some example_func\<rparr>)
      = None"
    by (simp add: example_args_def)
  show ?thesis
    using after_trial_records_only_complete [OF built none, of FAIL]
      after_trial_records_only_complete [OF built none, of PRUNED]
    by simp
qed

text \<open>With a complete state the same strategy records the constraint values.\<close>

lemma record_constraints_complete_example:
  "map constraint_values (trials (record_constraints (Some example_func) example_world
      (example_candidate 1 [1, 1] None) COMPLETE None))
   = [None, Some [1, - 1]]"
  by (simp add: record_constraints_def example_world_def example_candidate_def example_func_def)

end
